theory Spec2Isabelle
  imports Complex_Main "HOL-Library.Multiset"
begin

section \<open>Python values\<close>

subsection \<open>Strings\<close>

text \<open>
  A Python \<open>str\<close> is modelled as a \<open>string\<close> whose characters are the code points
  below 256 (ASCII and Latin-1). \<open>str.isspace\<close> and \<open>str.lower\<close> are written out for
  that range; the regular-expression class \<open>\s\<close> is the same set of characters.
\<close>

definition py_isspace :: "char \<Rightarrow> bool" where
  "py_isspace c =
     (let n = (of_char c :: nat)
      in (9 \<le> n \<and> n \<le> 13) \<or> (28 \<le> n \<and> n \<le> 32) \<or> n = 133 \<or> n = 160)"

definition py_lower_char :: "char \<Rightarrow> char" where
  "py_lower_char c =
     (let n = (of_char c :: nat)
      in if (65 \<le> n \<and> n \<le> 90) \<or> (192 \<le> n \<and> n \<le> 222 \<and> n \<noteq> 215)
         then char_of (n + 32) else c)"

definition py_lower :: "string \<Rightarrow> string" where
  "py_lower s = map py_lower_char s"

definition py_lstrip :: "string \<Rightarrow> string" where
  "py_lstrip s = dropWhile py_isspace s"

definition py_rstrip :: "string \<Rightarrow> string" where
  "py_rstrip s = rev (dropWhile py_isspace (rev s))"

definition py_strip :: "string \<Rightarrow> string" where
  "py_strip s = py_rstrip (py_lstrip s)"

definition py_endswith :: "string \<Rightarrow> string \<Rightarrow> bool" where
  "py_endswith s suf =
     (length suf \<le> length s \<and> drop (length s - length suf) s = suf)"

text \<open>\<open>sep.join(xs)\<close>.\<close>

fun py_join :: "string \<Rightarrow> string list \<Rightarrow> string" where
  "py_join sep [] = []"
| "py_join sep [x] = x"
| "py_join sep (x # y # ys) = x @ sep @ py_join sep (y # ys)"

text \<open>\<open>s.split()\<close>: the maximal runs of non-whitespace characters.\<close>

fun py_split_ws :: "string \<Rightarrow> string \<Rightarrow> string list" where
  "py_split_ws cur [] = (if cur = [] then [] else [cur])"
| "py_split_ws cur (c # cs) =
     (if py_isspace c
      then (if cur = [] then py_split_ws [] cs else cur # py_split_ws [] cs)
      else py_split_ws (cur @ [c]) cs)"

definition py_split :: "string \<Rightarrow> string list" where
  "py_split s = py_split_ws [] s"

text \<open>\<open>s.split(sep)\<close> for a one-character separator: always at least one field.\<close>

fun split_on :: "char \<Rightarrow> string \<Rightarrow> string \<Rightarrow> string list" where
  "split_on sep cur [] = [cur]"
| "split_on sep cur (c # cs) =
     (if c = sep then cur # split_on sep [] cs else split_on sep (cur @ [c]) cs)"

text \<open>Decimal digits and numerals.\<close>

definition is_digit :: "char \<Rightarrow> bool" where
  "is_digit c = (let n = (of_char c :: nat) in 48 \<le> n \<and> n \<le> 57)"

definition digit_val :: "char \<Rightarrow> nat" where
  "digit_val c = of_char c - 48"

definition digits_val :: "string \<Rightarrow> nat" where
  "digits_val s = foldl (\<lambda>acc c. 10 * acc + digit_val c) 0 s"

definition digit_char :: "nat \<Rightarrow> char" where
  "digit_char n = char_of (48 + n mod 10)"

text \<open>\<open>str(n)\<close> for a natural number.\<close>

function show_nat :: "nat \<Rightarrow> string" where
  "show_nat n = (if n < 10 then [digit_char n] else show_nat (n div 10) @ [digit_char n])"
  by pat_completeness auto
termination
  by (relation "measure (\<lambda>n. n)") auto

declare show_nat.simps [simp del]

definition show_int :: "int \<Rightarrow> string" where
  "show_int i = (if i < 0 then CHR ''-'' # show_nat (nat (- i)) else show_nat (nat i))"

text \<open>Zero padding to a width, as the \<open>%02d\<close> style directives of \<open>strftime\<close> do.\<close>

definition zero_pad :: "nat \<Rightarrow> string \<Rightarrow> string" where
  "zero_pad w s = replicate (w - length s) CHR ''0'' @ s"

text \<open>Lexicographic order on strings by code point, the order of \<open>sorted\<close> on \<open>str\<close>.\<close>

fun str_le :: "string \<Rightarrow> string \<Rightarrow> bool" where
  "str_le [] ys = True"
| "str_le (x # xs) [] = False"
| "str_le (x # xs) (y # ys) =
     ((of_char x :: nat) < of_char y \<or> (x = y \<and> str_le xs ys))"

subsection \<open>Errors and numbers\<close>

text \<open>The exceptions that the modelled code can raise.\<close>

datatype error = ValueError | TypeError | AttributeError | ZeroDivisionError

definition ebind :: "error + 'a \<Rightarrow> ('a \<Rightarrow> error + 'b) \<Rightarrow> error + 'b" where
  "ebind m f = (case m of Inl e \<Rightarrow> Inl e | Inr x \<Rightarrow> f x)"

text \<open>
  A Python \<open>float\<close> is modelled as a \<open>real\<close>: rounding, infinities and NaN of IEEE
  arithmetic are outside the model, except where pandas produces NaN for a missing
  number (see \<open>to_numeric\<close>). True division raises on a zero divisor.
\<close>

definition py_truediv :: "real \<Rightarrow> real \<Rightarrow> error + real" where
  "py_truediv a b = (if b = 0 then Inl ZeroDivisionError else Inr (a / b))"

text \<open>\<open>round(x)\<close>: to the nearest integer, ties to even.\<close>

definition py_round :: "real \<Rightarrow> int" where
  "py_round x =
     (let f = \<lfloor>x\<rfloor>; d = x - of_int f
      in if d < 1 / 2 then f else if 1 / 2 < d then f + 1
         else if even f then f else f + 1)"

text \<open>\<open>round(x, k)\<close>.\<close>

definition py_round_nd :: "real \<Rightarrow> nat \<Rightarrow> real" where
  "py_round_nd x k = of_int (py_round (x * 10 ^ k)) / 10 ^ k"

text \<open>
  A cell of a sheet as \<open>gspread\<close>'s \<open>get_all_records\<close> returns it: text, or a number
  where the cell's text reads as one.
\<close>

datatype cell = CStr string | CInt int | CFloat real

definition is_str :: "cell \<Rightarrow> bool" where
  "is_str c = (case c of CStr _ \<Rightarrow> True | _ \<Rightarrow> False)"

text \<open>
  Truthiness of a cell (\<open>x or None\<close>, \<open>if x\<close>): an empty string and a zero are false.
\<close>

definition truthy :: "cell \<Rightarrow> bool" where
  "truthy c = (case c of CStr s \<Rightarrow> s \<noteq> [] | CInt i \<Rightarrow> i \<noteq> 0 | CFloat r \<Rightarrow> r \<noteq> 0)"


text \<open>
  \<open>float(s)\<close> on a string: surrounding whitespace is stripped; an optional sign; digits
  with an optional fraction, or a fraction alone; an optional exponent. Anything else is a
  \<open>ValueError\<close> (\<open>None\<close> here). The literals for infinity and NaN and digit-group
  underscores are not modelled.
\<close>

definition parse_sign :: "string \<Rightarrow> bool \<times> string" where
  "parse_sign s =
     (case s of [] \<Rightarrow> (False, [])
      | c # r \<Rightarrow> if c = CHR ''-'' then (True, r)
                 else if c = CHR ''+'' then (False, r) else (False, s))"

definition parse_exponent :: "string \<Rightarrow> int option" where
  "parse_exponent s =
     (case s of [] \<Rightarrow> Some 0
      | c # r \<Rightarrow>
          if c = CHR ''e'' \<or> c = CHR ''E''
          then (let (neg, ds) = parse_sign r
                in if ds \<noteq> [] \<and> list_all is_digit ds
                   then Some (if neg then - int (digits_val ds) else int (digits_val ds))
                   else None)
          else None)"

definition parse_float :: "string \<Rightarrow> real option" where
  "parse_float s0 =
     (let (neg, s1) = parse_sign (py_strip s0);
          ip = takeWhile is_digit s1;
          r1 = dropWhile is_digit s1;
          (fp, r2) = (case r1 of [] \<Rightarrow> ([], [])
                      | c # r \<Rightarrow> if c = CHR ''.''
                                 then (takeWhile is_digit r, dropWhile is_digit r)
                                 else ([], r1))
      in if ip = [] \<and> fp = [] then None
         else (case parse_exponent r2 of None \<Rightarrow> None
               | Some e \<Rightarrow>
                   (let m = real (digits_val (ip @ fp)) / 10 ^ length fp;
                        v = (if 0 \<le> e then m * 10 ^ nat e else m / 10 ^ nat (- e))
                    in Some (if neg then - v else v))))"

text \<open>\<open>float(x)\<close> on a cell.\<close>

definition py_float :: "cell \<Rightarrow> error + real" where
  "py_float c =
     (case c of CInt i \<Rightarrow> Inr (of_int i) | CFloat r \<Rightarrow> Inr r
      | CStr s \<Rightarrow> (case parse_float s of None \<Rightarrow> Inl ValueError | Some r \<Rightarrow> Inr r))"

text \<open>
  \<open>pandas.to_numeric(column, errors='coerce')\<close> on one cell: a number, or NaN (\<open>None\<close>)
  where the cell does not read as a number; a blank cell is NaN.
\<close>

definition to_numeric :: "cell \<Rightarrow> real option" where
  "to_numeric c = (case py_float c of Inl _ \<Rightarrow> None | Inr r \<Rightarrow> Some r)"

text \<open>
  \<open>str(x)\<close> on a cell. For a float the shortest round-trip rendering of Python is
  approximated by the decimal expansion with up to 17 fractional digits.
\<close>

fun frac_digits :: "nat \<Rightarrow> real \<Rightarrow> string" where
  "frac_digits 0 r = []"
| "frac_digits (Suc k) r =
     (if r = 0 then []
      else (let d = nat \<lfloor>r * 10\<rfloor> in digit_char d # frac_digits k (r * 10 - real d)))"

definition show_float :: "real \<Rightarrow> string" where
  "show_float r =
     (let a = \<bar>r\<bar>; ip = nat \<lfloor>a\<rfloor>; fd = frac_digits 17 (a - real ip)
      in (if r < 0 then ''-'' else '''') @ show_nat ip @ ''.''
          @ (if fd = [] then ''0'' else fd))"

definition py_str :: "cell \<Rightarrow> string" where
  "py_str c = (case c of CStr s \<Rightarrow> s | CInt i \<Rightarrow> show_int i | CFloat r \<Rightarrow> show_float r)"

text \<open>The format \<open>f"{x:.2f}"\<close>: two decimals, ties to even.\<close>

definition format_2f :: "real \<Rightarrow> string" where
  "format_2f x =
     (let n = nat (py_round (\<bar>x\<bar> * 100))
      in (if x < 0 then ''-'' else '''') @ show_nat (n div 100) @ ''.''
          @ zero_pad 2 (show_nat (n mod 100)))"

section \<open>CategoryNormalizer\<close>

text \<open>
  \<open>SheetsService._normalize_category\<close> (sheets_service.py):
  \<^verbatim>\<open>
  normalized = category.lower().strip()
  if normalized.endswith('ies'):
      normalized = normalized[:-3] + 'y'
  elif normalized.endswith('s') and not normalized.endswith('ss'):
      normalized = normalized[:-1]
  return normalized
  \<close>
  The slice \<open>normalized[:-k]\<close> keeps the first \<open>len - k\<close> characters.
\<close>

definition normalize_category :: "string \<Rightarrow> string" where
  "normalize_category category =
     (let normalized = py_strip (py_lower category)
      in if py_endswith normalized ''ies''
         then take (length normalized - 3) normalized @ ''y''
         else if py_endswith normalized ''s'' \<and> \<not> py_endswith normalized ''ss''
         then take (length normalized - 1) normalized
         else normalized)"

section \<open>Dates and times\<close>

text \<open>
  A \<open>datetime\<close> is a point of the proleptic Gregorian calendar: the ordinal of its day
  (day 1 is 0001-01-01, as \<open>date.toordinal\<close> counts) and the microseconds since
  midnight. The conversions between ordinals and (year, month, day) follow the
  functions of Python's \<open>datetime\<close> module. The range check of \<open>datetime\<close> arithmetic
  (years 1 to 9999) is not modelled.
\<close>

record datetime =
  dt_ord :: int
  dt_us :: int

definition is_leap :: "int \<Rightarrow> bool" where
  "is_leap y = (y mod 4 = 0 \<and> (y mod 100 \<noteq> 0 \<or> y mod 400 = 0))"

definition DAYS_IN_MONTH :: "int list" where
  "DAYS_IN_MONTH = [0, 31, 28, 31, 30, 31, 30, 31, 31, 30, 31, 30, 31]"

definition DAYS_BEFORE_MONTH :: "int list" where
  "DAYS_BEFORE_MONTH = [0, 0, 31, 59, 90, 120, 151, 181, 212, 243, 273, 304, 334]"

definition days_in_month :: "int \<Rightarrow> int \<Rightarrow> int" where
  "days_in_month y m = (if m = 2 \<and> is_leap y then 29 else DAYS_IN_MONTH ! nat m)"

definition days_before_year :: "int \<Rightarrow> int" where
  "days_before_year year =
     (let y = year - 1 in y * 365 + y div 4 - y div 100 + y div 400)"

definition days_before_month :: "int \<Rightarrow> int \<Rightarrow> int" where
  "days_before_month y m =
     DAYS_BEFORE_MONTH ! nat m + (if 2 < m \<and> is_leap y then 1 else 0)"

definition ymd2ord :: "int \<Rightarrow> int \<Rightarrow> int \<Rightarrow> int" where
  "ymd2ord y m d = days_before_year y + days_before_month y m + d"

definition ord2ymd :: "int \<Rightarrow> int \<times> int \<times> int" where
  "ord2ymd n0 =
     (let n = n0 - 1;
          n400 = n div 146097; n = n mod 146097;
          n100 = n div 36524; n = n mod 36524;
          n4 = n div 1461; n = n mod 1461;
          n1 = n div 365; n = n mod 365;
          year = n400 * 400 + 1 + n100 * 100 + n4 * 4 + n1
      in if n1 = 4 \<or> n100 = 4 then (year - 1, 12, 31)
         else (let leapyear = (n1 = 3 \<and> (n4 \<noteq> 24 \<or> n100 = 3));
                   month = (n + 50) div 32;
                   preceding = DAYS_BEFORE_MONTH ! nat month
                               + (if 2 < month \<and> leapyear then 1 else 0);
                   (month, preceding) =
                     (if n < preceding
                      then (month - 1,
                            preceding - (DAYS_IN_MONTH ! nat (month - 1)
                                         + (if month - 1 = 2 \<and> leapyear then 1 else 0)))
                      else (month, preceding))
               in (year, month, n - preceding + 1)))"

definition dt_year :: "datetime \<Rightarrow> int" where
  "dt_year t = (case ord2ymd (dt_ord t) of (y, m, d) \<Rightarrow> y)"

definition dt_month :: "datetime \<Rightarrow> int" where
  "dt_month t = (case ord2ymd (dt_ord t) of (y, m, d) \<Rightarrow> m)"

definition dt_day :: "datetime \<Rightarrow> int" where
  "dt_day t = (case ord2ymd (dt_ord t) of (y, m, d) \<Rightarrow> d)"

text \<open>Microseconds since midnight of a time of day.\<close>

definition time_us :: "int \<Rightarrow> int \<Rightarrow> int \<Rightarrow> int \<Rightarrow> int" where
  "time_us h mi s us = ((h * 60 + mi) * 60 + s) * 1000000 + us"

definition DAY_US :: int where
  "DAY_US = 86400000000"

text \<open>\<open>datetime(y, m, d, h, mi, s, us)\<close>; the constructor raises on an invalid date.\<close>

definition valid_ymd :: "int \<Rightarrow> int \<Rightarrow> int \<Rightarrow> bool" where
  "valid_ymd y m d =
     (1 \<le> y \<and> y \<le> 9999 \<and> 1 \<le> m \<and> m \<le> 12 \<and> 1 \<le> d \<and> d \<le> days_in_month y m)"

definition mk_datetime :: "int \<Rightarrow> int \<Rightarrow> int \<Rightarrow> int \<Rightarrow> int \<Rightarrow> int \<Rightarrow> int \<Rightarrow> datetime" where
  "mk_datetime y m d h mi s us = \<lparr>dt_ord = ymd2ord y m d, dt_us = time_us h mi s us\<rparr>"

text \<open>Comparison of two datetimes.\<close>

definition dt_less :: "datetime \<Rightarrow> datetime \<Rightarrow> bool" where
  "dt_less a b = (dt_ord a < dt_ord b \<or> (dt_ord a = dt_ord b \<and> dt_us a < dt_us b))"

definition dt_le :: "datetime \<Rightarrow> datetime \<Rightarrow> bool" where
  "dt_le a b = (\<not> dt_less b a)"

text \<open>\<open>t - timedelta(days=n)\<close> and \<open>t + timedelta(days=n)\<close>.\<close>

definition sub_days :: "datetime \<Rightarrow> int \<Rightarrow> datetime" where
  "sub_days t n = t\<lparr>dt_ord := dt_ord t - n\<rparr>"

definition add_days :: "datetime \<Rightarrow> int \<Rightarrow> datetime" where
  "add_days t n = t\<lparr>dt_ord := dt_ord t + n\<rparr>"

text \<open>\<open>t + timedelta(microseconds=k)\<close> for any integer \<open>k\<close>, with the carry into days.\<close>

definition add_us :: "datetime \<Rightarrow> int \<Rightarrow> datetime" where
  "add_us t k =
     (let total = dt_us t + k
      in \<lparr>dt_ord = dt_ord t + total div DAY_US, dt_us = total mod DAY_US\<rparr>)"

text \<open>\<open>t.replace(...)\<close>: date fields and time fields.\<close>

definition replace_date :: "datetime \<Rightarrow> int \<Rightarrow> int \<Rightarrow> int \<Rightarrow> datetime" where
  "replace_date t y m d = t\<lparr>dt_ord := ymd2ord y m d\<rparr>"

definition replace_day :: "datetime \<Rightarrow> int \<Rightarrow> datetime" where
  "replace_day t d = replace_date t (dt_year t) (dt_month t) d"

definition midnight :: "datetime \<Rightarrow> datetime" where
  "midnight t = t\<lparr>dt_us := 0\<rparr>"

text \<open>\<open>t.replace(hour=23, minute=59, second=59)\<close> keeps the microsecond.\<close>

definition replace_hms_235959 :: "datetime \<Rightarrow> datetime" where
  "replace_hms_235959 t = t\<lparr>dt_us := time_us 23 59 59 (dt_us t mod 1000000)\<rparr>"

text \<open>\<open>t.weekday()\<close>: Monday is 0.\<close>

definition weekday :: "datetime \<Rightarrow> int" where
  "weekday t = (dt_ord t + 6) mod 7"

subsection \<open>strftime\<close>

definition MONTH_ABBR :: "string list" where
  "MONTH_ABBR = ['''', ''Jan'', ''Feb'', ''Mar'', ''Apr'', ''May'', ''Jun'',
                 ''Jul'', ''Aug'', ''Sep'', ''Oct'', ''Nov'', ''Dec'']"

text \<open>\<open>%Y\<close> (the C library's rendering, which does not pad), \<open>%m\<close>, \<open>%d\<close>, \<open>%b\<close>.\<close>

definition fmt_Y :: "datetime \<Rightarrow> string" where
  "fmt_Y t = show_int (dt_year t)"


definition fmt_d :: "datetime \<Rightarrow> string" where
  "fmt_d t = zero_pad 2 (show_int (dt_day t))"

definition fmt_b :: "datetime \<Rightarrow> string" where
  "fmt_b t = MONTH_ABBR ! nat (dt_month t)"




definition strftime_bd :: "datetime \<Rightarrow> string" where
  "strftime_bd t = fmt_b t @ '' '' @ fmt_d t"

definition strftime_bdY :: "datetime \<Rightarrow> string" where
  "strftime_bdY t = fmt_b t @ '' '' @ fmt_d t @ '', '' @ fmt_Y t"

subsection \<open>strptime\<close>

text \<open>
  \<open>datetime.strptime\<close> compiles the format into a regular expression that must match
  the whole string: \<open>%d\<close> is \<open>3[0-1]|[1-2]\d|0[1-9]|[1-9]| [1-9]\<close>, \<open>%m\<close> is
  \<open>1[0-2]|0[1-9]|[1-9]\<close>, \<open>%Y\<close> is \<open>\d\d\d\d\<close>. The hyphen occurs in none of them, so
  with both formats used here the fields are the three hyphen-separated parts of the
  string. The date is then validated by the \<open>datetime\<close> constructor.
\<close>

definition match_d :: "string \<Rightarrow> int option" where
  "match_d s =
     (case s of
        [a] \<Rightarrow> if is_digit a \<and> a \<noteq> CHR ''0'' then Some (int (digit_val a)) else None
      | [a, b] \<Rightarrow>
          if a = CHR '' '' then (if is_digit b \<and> b \<noteq> CHR ''0'' then Some (int (digit_val b)) else None)
          else if is_digit a \<and> is_digit b
          then (let v = int (digits_val [a, b]) in if 1 \<le> v \<and> v \<le> 31 then Some v else None)
          else None
      | _ \<Rightarrow> None)"

definition match_m :: "string \<Rightarrow> int option" where
  "match_m s =
     (case s of
        [a] \<Rightarrow> if is_digit a \<and> a \<noteq> CHR ''0'' then Some (int (digit_val a)) else None
      | [a, b] \<Rightarrow>
          if is_digit a \<and> is_digit b
          then (let v = int (digits_val [a, b]) in if 1 \<le> v \<and> v \<le> 12 then Some v else None)
          else None
      | _ \<Rightarrow> None)"

definition match_Y :: "string \<Rightarrow> int option" where
  "match_Y s =
     (if length s = 4 \<and> list_all is_digit s then Some (int (digits_val s)) else None)"

definition mk_date_checked :: "int option \<Rightarrow> int option \<Rightarrow> int option \<Rightarrow> datetime option" where
  "mk_date_checked yo mo d_o =
     (case (yo, mo, d_o) of
        (Some y, Some m, Some d) \<Rightarrow>
          if valid_ymd y m d then Some (mk_datetime y m d 0 0 0 0) else None
      | _ \<Rightarrow> None)"

text \<open>\<open>datetime.strptime(s, "%d-%m-%Y")\<close>; \<open>None\<close> is the \<open>ValueError\<close>.\<close>

definition strptime_dmY :: "string \<Rightarrow> datetime option" where
  "strptime_dmY s =
     (case split_on CHR ''-'' [] s of
        [d, m, y] \<Rightarrow> mk_date_checked (match_Y y) (match_m m) (match_d d)
      | _ \<Rightarrow> None)"

text \<open>\<open>datetime.strptime(s, "%Y-%m-%d")\<close>.\<close>

definition strptime_Ymd :: "string \<Rightarrow> datetime option" where
  "strptime_Ymd s =
     (case split_on CHR ''-'' [] s of
        [y, m, d] \<Rightarrow> mk_date_checked (match_Y y) (match_m m) (match_d d)
      | _ \<Rightarrow> None)"

text \<open>
  The two-format date reader used on ledger rows (\<open>parse_date\<close> in
  \<open>find_duplicate_receipts\<close>, and inline in \<open>calculate_budget_spending\<close>):
  \<open>dd-mm-yyyy\<close> first, then \<open>yyyy-mm-dd\<close>, else nothing.
\<close>

definition parse_date_str :: "string \<Rightarrow> datetime option" where
  "parse_date_str s =
     (case strptime_dmY s of Some t \<Rightarrow> Some t
      | None \<Rightarrow> strptime_Ymd s)"

section \<open>Ledger rows and dictionaries\<close>

text \<open>
  One row of the "Receipts" sheet as \<open>get_all_records\<close> returns it: a dictionary with
  one entry for each column of the header that \<open>save_receipt\<close> writes. Every key is
  present in every row, so \<open>row.get(key, default)\<close> is the field.
\<close>

record ledger_row =
  Date :: cell
  Merchant :: cell
  Address :: cell
  Item :: cell
  Category :: cell
  Qty :: cell
  Unit_Price :: cell
  Total_Price :: cell
  Tax :: cell
  Grand_Total :: cell
  Payment :: cell

text \<open>
  A Python \<open>dict\<close> is an association list in insertion order with distinct keys.
  \<open>dict_update k dflt f d\<close> is \<open>d[k] = f(d.get(k, dflt))\<close>: an existing key keeps its
  place, a new key goes to the end.
\<close>

fun dict_update :: "'k \<Rightarrow> 'v \<Rightarrow> ('v \<Rightarrow> 'v) \<Rightarrow> ('k \<times> 'v) list \<Rightarrow> ('k \<times> 'v) list" where
  "dict_update k dflt f [] = [(k, f dflt)]"
| "dict_update k dflt f ((k', w) # d) =
     (if k = k' then (k', f w) # d else (k', w) # dict_update k dflt f d)"




text \<open>
  \<open>sorted(xs)\<close> and \<open>xs.sort(...)\<close> are stable; \<open>sort_by le\<close> is the stable insertion sort
  for the order \<open>le\<close>.
\<close>

fun insort_by :: "('a \<Rightarrow> 'a \<Rightarrow> bool) \<Rightarrow> 'a \<Rightarrow> 'a list \<Rightarrow> 'a list" where
  "insort_by le x [] = [x]"
| "insort_by le x (y # ys) = (if le x y then x # y # ys else y # insort_by le x ys)"

definition sort_by :: "('a \<Rightarrow> 'a \<Rightarrow> bool) \<Rightarrow> 'a list \<Rightarrow> 'a list" where
  "sort_by le xs = foldr (insort_by le) xs []"


section \<open>AggregationEngine\<close>











subsection \<open>get_trends\<close>





subsection \<open>get_forecast\<close>






subsection \<open>get_category_analysis\<close>





section \<open>Budget status\<close>

text \<open>One row of the "Budgets" sheet.\<close>

record budget_row =
  b_ID :: cell
  b_Category :: cell
  b_Limit :: cell
  b_Period :: cell
  b_Period_Type :: cell
  b_Start_Date :: cell
  b_End_Date :: cell

record Budget =
  bg_id :: cell
  bg_category :: cell
  bg_limit :: real
  bg_period :: cell
  bg_period_type :: cell
  bg_start_date :: "cell option"
  bg_end_date :: "cell option"
  bg_current_spend :: real
  bg_percentage_used :: real
  bg_is_exceeded :: bool
  bg_period_display :: string
  bg_resets_on :: string

record BudgetStatus =
  bs_budgets :: "Budget list"
  bs_total_budget :: real
  bs_total_spent :: real
  bs_overall_percentage :: real

text \<open>\<open>x or None\<close> on a cell.\<close>

definition or_None :: "cell \<Rightarrow> cell option" where
  "or_None c = (if truthy c then Some c else None)"

text \<open>\<open>datetime.strptime(x, "%Y-%m-%d")\<close> on a cell; a cell that is not text is a \<open>TypeError\<close>.\<close>

definition strptime_Ymd_cell :: "cell \<Rightarrow> datetime option" where
  "strptime_Ymd_cell c = (case c of CStr s \<Rightarrow> strptime_Ymd s | _ \<Rightarrow> None)"

text \<open>
  The date range of \<open>SheetsService.calculate_budget_spending\<close>:
  \<open>(range_start, range_end)\<close> by period type.
\<close>

definition budget_range ::
  "datetime \<Rightarrow> cell \<Rightarrow> cell \<Rightarrow> cell option \<Rightarrow> cell option \<Rightarrow> datetime \<times> datetime" where
  "budget_range now period period_type start_date end_date =
     (if period_type = CStr ''rolling''
      then ((if period = CStr ''weekly'' then sub_days now 7 else sub_days now 30), now)
      else if period_type = CStr ''calendar_month''
      then (midnight (replace_day now 1),
            (if dt_month now = 12
             then replace_hms_235959 (replace_date now (dt_year now) 12 31)
             else (let next_month = replace_date now (dt_year now) (dt_month now + 1) 1
                   in add_us next_month (- 1000000))))
      else if period_type = CStr ''calendar_week''
      then (let start_of_week = sub_days now (weekday now)
            in (midnight start_of_week,
                add_us (add_days start_of_week 6) (time_us 23 59 59 0)))
      else (case (start_date, end_date) of
              (Some sd, Some ed) \<Rightarrow>
                if period_type = CStr ''custom''
                then (case (strptime_Ymd_cell sd, strptime_Ymd_cell ed) of
                        (Some s, Some e) \<Rightarrow> (s, replace_hms_235959 e)
                      | _ \<Rightarrow> (midnight (replace_day now 1), now))
                else (midnight (replace_day now 1), now)
            | _ \<Rightarrow> (midnight (replace_day now 1), now)))"

text \<open>
  The body of the loop over the ledger: the new running total. Every exception
  inside it (a category or date that is not text, an amount that does not convert) is
  caught by the loop's own \<open>try\<close> and the row is skipped.
\<close>

definition spending_row ::
  "string \<Rightarrow> datetime \<Rightarrow> datetime \<Rightarrow> real \<Rightarrow> ledger_row \<Rightarrow> real" where
  "spending_row normalized_category range_start range_end total_spending receipt =
     (case Category receipt of
        CStr c \<Rightarrow>
          (let receipt_category = py_strip c;
               normalized_receipt_cat = normalize_category receipt_category
           in if normalized_receipt_cat \<noteq> normalized_category then total_spending
              else (case Date receipt of
                      CStr date_str \<Rightarrow>
                        (case parse_date_str date_str of
                           None \<Rightarrow> total_spending
                         | Some receipt_date \<Rightarrow>
                             if dt_le range_start receipt_date \<and> dt_le receipt_date range_end
                             then (case py_float (Total_Price receipt) of
                                     Inl e \<Rightarrow> total_spending
                                   | Inr amount \<Rightarrow> total_spending + amount)
                             else total_spending)
                    | _ \<Rightarrow> total_spending))
      | _ \<Rightarrow> total_spending)"

text \<open>
  \<open>calculate_budget_spending\<close>: the whole body is inside \<open>try ... except Exception:
  return 0.0\<close>; the one exception that reaches it is the \<open>AttributeError\<close> of
  \<open>_normalize_category\<close> on a category that is not text.
\<close>

definition calculate_budget_spending ::
  "datetime \<Rightarrow> ledger_row list \<Rightarrow> cell \<Rightarrow> cell \<Rightarrow> cell \<Rightarrow> cell option \<Rightarrow> cell option \<Rightarrow> real" where
  "calculate_budget_spending now receipts category period period_type start_date end_date =
     (case category of
        CStr c \<Rightarrow>
          (let normalized_category = normalize_category c;
               (range_start, range_end) = budget_range now period period_type start_date end_date
           in foldl (spending_row normalized_category range_start range_end) 0 receipts)
      | _ \<Rightarrow> 0)"

text \<open>\<open>AnalysisService._calculate_period_info\<close>: the display string and the reset date.\<close>

definition calculate_period_info ::
  "datetime \<Rightarrow> cell \<Rightarrow> cell \<Rightarrow> cell option \<Rightarrow> cell option \<Rightarrow> string \<times> string" where
  "calculate_period_info now period_type period start_date end_date =
     (if period_type = CStr ''rolling''
      then (if period = CStr ''weekly''
            then (''Rolling 7 days ('' @ strftime_bd (sub_days now 7) @ '' - ''
                    @ strftime_bdY now @ '')'', ''Daily'')
            else (''Rolling 30 days ('' @ strftime_bd (sub_days now 30) @ '' - ''
                    @ strftime_bdY now @ '')'', ''Daily''))
      else if period_type = CStr ''calendar_month''
      then (let month_start = replace_day now 1;
                (month_end, next_reset) =
                  (if dt_month now = 12
                   then (replace_day now 31, replace_date now (dt_year now + 1) 1 1)
                   else (let next_month = replace_date now (dt_year now) (dt_month now + 1) 1
                         in (sub_days next_month 1, next_month)))
            in (strftime_bd month_start @ '' - '' @ strftime_bdY month_end,
                strftime_bdY next_reset))
      else if period_type = CStr ''calendar_week''
      then (let start_of_week = sub_days now (weekday now);
                end_of_week = add_days start_of_week 6;
                next_week = add_days start_of_week 7
            in (strftime_bd start_of_week @ '' - '' @ strftime_bdY end_of_week,
                strftime_bdY next_week))
      else (case (start_date, end_date) of
              (Some sd, Some ed) \<Rightarrow>
                if period_type = CStr ''custom''
                then (case (strptime_Ymd_cell sd, strptime_Ymd_cell ed) of
                        (Some s, Some e) \<Rightarrow>
                          (strftime_bd s @ '' - '' @ strftime_bdY e, ''Does not reset'')
                      | _ \<Rightarrow> (''Current month'', ''Next month''))
                else (''Current month'', ''Next month'')
            | _ \<Rightarrow> (''Current month'', ''Next month'')))"

text \<open>
  The body of the loop of \<open>AnalysisService.get_budget_status\<close> for one budget row.
  \<open>float(budget_row.get("Limit", 0))\<close> is not inside any \<open>try\<close>: its \<open>ValueError\<close>
  leaves the function. The division is the guarded expression
  \<open>(current_spend / limit * 100) if limit > 0 else 0\<close>.
\<close>

definition budget_entry :: "datetime \<Rightarrow> ledger_row list \<Rightarrow> budget_row \<Rightarrow> error + Budget" where
  "budget_entry now receipts row =
     (let category = b_Category row
      in ebind (py_float (b_Limit row)) (\<lambda>limit.
           (let period = b_Period row;
                period_type = b_Period_Type row;
                start_date = or_None (b_Start_Date row);
                end_date = or_None (b_End_Date row);
                current_spend = calculate_budget_spending now receipts category period
                                  period_type start_date end_date
            in ebind (if 0 < limit
                      then ebind (py_truediv current_spend limit) (\<lambda>q. Inr (q * 100))
                      else Inr 0) (\<lambda>percentage.
                 (let (period_display, resets_on) =
                        calculate_period_info now period_type period start_date end_date
                  in Inr \<lparr>bg_id = b_ID row, bg_category = category, bg_limit = limit,
                          bg_period = period, bg_period_type = period_type,
                          bg_start_date = start_date, bg_end_date = end_date,
                          bg_current_spend = current_spend, bg_percentage_used = percentage,
                          bg_is_exceeded = (limit < current_spend),
                          bg_period_display = period_display, bg_resets_on = resets_on\<rparr>)))))"

text \<open>The loop over the budget rows, with the running totals; the first exception ends it.\<close>

fun budget_loop ::
  "datetime \<Rightarrow> ledger_row list \<Rightarrow> budget_row list \<Rightarrow> Budget list \<times> real \<times> real
   \<Rightarrow> error + (Budget list \<times> real \<times> real)" where
  "budget_loop now receipts [] acc = Inr acc"
| "budget_loop now receipts (row # rows) (budgets, total_budget, total_spent) =
     ebind (budget_entry now receipts row) (\<lambda>b.
       budget_loop now receipts rows
         (budgets @ [b], total_budget + bg_limit b, total_spent + bg_current_spend b))"

definition get_budget_status ::
  "datetime \<Rightarrow> budget_row list \<Rightarrow> ledger_row list \<Rightarrow> error + BudgetStatus" where
  "get_budget_status now budget_data receipts =
     ebind (budget_loop now receipts budget_data ([], 0, 0)) (\<lambda>(budgets, total_budget, total_spent).
       ebind (if 0 < total_budget
              then ebind (py_truediv total_spent total_budget) (\<lambda>q. Inr (q * 100))
              else Inr 0) (\<lambda>overall_percentage.
         Inr \<lparr>bs_budgets = budgets, bs_total_budget = total_budget,
              bs_total_spent = total_spent, bs_overall_percentage = overall_percentage\<rparr>))"

section \<open>Fuzzy string matching\<close>

text \<open>
  \<open>find_duplicate_receipts\<close> calls \<open>fuzz.ratio\<close> and \<open>fuzz.token_set_ratio\<close> of the
  third-party package \<open>fuzzywuzzy\<close>, which is not part of the repository. They are
  modelled here from the package's algorithm, with its Levenshtein back end: the
  similarity of two strings is \<open>(len1 + len2 - d) / (len1 + len2)\<close>, where \<open>d\<close> is the edit
  distance with insertions and deletions of cost 1 and substitutions of cost 2.
\<close>

text \<open>One row of the edit-distance table from the row above it.\<close>

fun indel_row_step :: "char \<Rightarrow> string \<Rightarrow> nat list \<Rightarrow> nat \<Rightarrow> nat list" where
  "indel_row_step x (y # ys) (pd # pj # prev) left =
     (let v = min (min (pj + 1) (left + 1)) (pd + (if x = y then 0 else 2))
      in v # indel_row_step x ys (pj # prev) v)"
| "indel_row_step x ys prev left = []"

definition indel_row :: "string \<Rightarrow> nat list \<Rightarrow> char \<Rightarrow> nat list" where
  "indel_row ys prev x =
     (case prev of [] \<Rightarrow> [] | p0 # _ \<Rightarrow> (p0 + 1) # indel_row_step x ys prev (p0 + 1))"

definition indel_distance :: "string \<Rightarrow> string \<Rightarrow> nat" where
  "indel_distance xs ys = last (foldl (indel_row ys) [0 ..< Suc (length ys)] xs)"

text \<open>
  \<open>fuzz.ratio\<close>: equal strings score 100 and an empty string scores 0 (the decorators
  \<open>check_for_equivalence\<close> and \<open>check_empty_string\<close>); otherwise
  \<open>int(round(100 * similarity))\<close>.
\<close>

definition ratio :: "string \<Rightarrow> string \<Rightarrow> int" where
  "ratio s1 s2 =
     (if s1 = s2 then 100
      else if s1 = [] \<or> s2 = [] then 0
      else (let lensum = length s1 + length s2
            in py_round (100 * (real (lensum - indel_distance s1 s2) / real lensum))))"

text \<open>
  \<open>utils.full_process(s, force_ascii=True)\<close>: characters from 128 on are removed,
  every character that is not a letter, a digit or an underscore becomes a space, then
  lower case and strip.
\<close>

definition is_word_char :: "char \<Rightarrow> bool" where
  "is_word_char c =
     (let n = (of_char c :: nat)
      in (48 \<le> n \<and> n \<le> 57) \<or> (65 \<le> n \<and> n \<le> 90) \<or> (97 \<le> n \<and> n \<le> 122) \<or> n = 95)"

definition full_process :: "string \<Rightarrow> string" where
  "full_process s =
     py_strip (py_lower (map (\<lambda>c. if is_word_char c then c else CHR '' '')
                             (filter (\<lambda>c. (of_char c :: nat) < 128) s)))"

text \<open>\<open>sorted(set(xs))\<close> on strings.\<close>

definition sorted_set :: "string list \<Rightarrow> string list" where
  "sorted_set xs = sort_by str_le (remdups xs)"

text \<open>\<open>fuzz.token_set_ratio(s1, s2)\<close>.\<close>

definition token_set_ratio :: "string \<Rightarrow> string \<Rightarrow> int" where
  "token_set_ratio s1 s2 =
     (let p1 = full_process s1; p2 = full_process s2
      in if p1 = [] then 0
         else if p2 = [] then 0
         else (let tokens1 = py_split p1; tokens2 = py_split p2;
                   intersection = filter (\<lambda>t. t \<in> set tokens2) tokens1;
                   diff1to2 = filter (\<lambda>t. t \<notin> set tokens2) tokens1;
                   diff2to1 = filter (\<lambda>t. t \<notin> set tokens1) tokens2;
                   sorted_sect = py_join '' '' (sorted_set intersection);
                   sorted_1to2 = py_join '' '' (sorted_set diff1to2);
                   sorted_2to1 = py_join '' '' (sorted_set diff2to1);
                   combined_1to2 = py_strip (sorted_sect @ '' '' @ sorted_1to2);
                   combined_2to1 = py_strip (sorted_sect @ '' '' @ sorted_2to1);
                   sorted_sect = py_strip sorted_sect
               in max (max (ratio sorted_sect combined_1to2) (ratio sorted_sect combined_2to1))
                      (ratio combined_1to2 combined_2to1)))"

section \<open>DuplicateDetector\<close>

text \<open>The candidate receipt (models/receipt.py).\<close>

record MerchantDetails =
  md_name :: string
  md_address :: string

record LineItem =
  li_item_name :: string
  li_unit_price :: real
  li_quantity :: real
  li_price :: real
  li_category :: string

record TotalAmounts =
  ta_total :: real
  ta_tax :: "real option"
  ta_payment_method :: string

record Receipt =
  r_merchant_details :: MerchantDetails
  r_purchase_date :: string
  r_line_items :: "LineItem list"
  r_total_amounts :: TotalAmounts

text \<open>
  A row of the pandas \<open>DataFrame\<close> after the column conversions: the merchant
  lower-cased and stripped (\<open>None\<close> is the NaN that \<open>.str\<close> gives for a cell that is not
  text), the two numeric columns after \<open>to_numeric\<close>, and the merchant score.
\<close>

record df_row =
  df_src :: ledger_row
  df_Merchant :: "string option"
  df_Grand_Total :: "real option"
  df_Total_Price :: "real option"
  df_merchant_score :: int

record group_item =
  gi_Item :: string
  gi_Category :: string
  gi_Qty :: cell
  gi_Unit_Price :: cell
  gi_Total_Price :: "real option"

text \<open>A reconstructed receipt; the grand total \<open>None\<close> is NaN.\<close>

record receipt_group =
  g_Date :: string
  g_Merchant :: string
  g_Address :: string
  g_Grand_Total :: "real option"
  g_Tax :: string
  g_Payment :: string
  g_items :: "group_item list"
  g_merchant_score :: int

record duplicate_summary =
  dup_Date :: string
  dup_Merchant :: string
  dup_Address :: string
  dup_Grand_Total :: "real option"
  dup_Tax :: string
  dup_Payment :: string
  dup_Item :: string
  dup_Category :: string
  match_type :: string
  match_percentage :: real
  merchant_score :: int
  items_detail :: "group_item list"

text \<open>The normalized name and rounded price of an item, as both lists hold them.\<close>

record cmp_item =
  ci_name :: string
  ci_price :: "real option"
  ci_original_name :: string

text \<open>
  \<open>str.upper\<close> on the letters of ASCII and Latin-1. The upper-case forms of the three
  remaining Latin-1 letters lie outside that range and are left as they are; none of
  them is a letter of \<open>"TOTAL"\<close>.
\<close>

definition py_upper_char :: "char \<Rightarrow> char" where
  "py_upper_char c =
     (let n = (of_char c :: nat)
      in if (97 \<le> n \<and> n \<le> 122) \<or> (224 \<le> n \<and> n \<le> 254 \<and> n \<noteq> 247)
         then char_of (n - 32) else c)"

definition py_upper :: "string \<Rightarrow> string" where
  "py_upper s = map py_upper_char s"

text \<open>\<open>re.sub(pattern + '+', ' ', s)\<close> for a character class: every maximal run becomes one space.\<close>

fun sub_runs :: "(char \<Rightarrow> bool) \<Rightarrow> bool \<Rightarrow> string \<Rightarrow> string" where
  "sub_runs P in_run [] = []"
| "sub_runs P in_run (c # cs) =
     (if P c then (if in_run then sub_runs P True cs else CHR '' '' # sub_runs P True cs)
      else c # sub_runs P False cs)"

text \<open>
  \<^verbatim>\<open>
  normalized = re.sub(r'[\n\r\t]+', ' ', name.lower().strip())
  normalized = re.sub(r'\s+', ' ', normalized)
  \<close>
\<close>

definition normalize_item_name :: "string \<Rightarrow> string" where
  "normalize_item_name name =
     (let normalized = sub_runs (\<lambda>c. c = CHR 0x0A \<or> c = CHR 0x0D \<or> c = CHR 0x09) False
                         (py_strip (py_lower name))
      in sub_runs py_isspace False normalized)"

text \<open>
  The column conversions. \<open>df['Merchant'].str.lower().str.strip()\<close> gives NaN for a
  cell that is not text; the score of a NaN merchant is 0.
\<close>

definition make_df_row :: "string \<Rightarrow> ledger_row \<Rightarrow> df_row" where
  "make_df_row merchant_name r =
     (let m = (case Merchant r of CStr s \<Rightarrow> Some (py_strip (py_lower s)) | _ \<Rightarrow> None)
      in \<lparr>df_src = r, df_Merchant = m,
          df_Grand_Total = to_numeric (Grand_Total r),
          df_Total_Price = to_numeric (Total_Price r),
          df_merchant_score = (case m of None \<Rightarrow> 0 | Some x \<Rightarrow> token_set_ratio x merchant_name)\<rparr>)"

text \<open>
  The nested \<open>parse_date\<close> of \<open>find_duplicate_receipts\<close>, which reads \<open>str(date_str)\<close>:
  the text of a number has at most one hyphen that is not at its start, so it matches
  neither format.
\<close>

definition fdr_parse_date :: "cell \<Rightarrow> datetime option" where
  "fdr_parse_date c = (case c of CStr s \<Rightarrow> parse_date_str s | _ \<Rightarrow> None)"

text \<open>
  The row filter: merchant score, a date that parses, and a date within
  \<open>threshold_days\<close> (both dates are at midnight, so the \<open>days\<close> of their difference is
  the difference of the ordinals).
\<close>

definition row_matches :: "datetime \<Rightarrow> int \<Rightarrow> int \<Rightarrow> df_row \<Rightarrow> bool" where
  "row_matches receipt_date threshold_days fuzzy_threshold row =
     (fuzzy_threshold \<le> df_merchant_score row \<and>
      (case fdr_parse_date (Date (df_src row)) of
         None \<Rightarrow> False
       | Some x \<Rightarrow> \<bar>dt_ord receipt_date - dt_ord x\<bar> \<le> threshold_days))"

text \<open>
  The body of the grouping loop. \<open>float(row.get("Grand Total", 0) or 0)\<close> keeps a NaN
  (NaN is true); the key is \<open>f"{date_str}|{merchant}|{grand_total:.2f}"\<close>.
\<close>

definition group_key :: "string \<Rightarrow> string \<Rightarrow> real option \<Rightarrow> string" where
  "group_key date_str merchant grand_total =
     date_str @ ''|'' @ merchant @ ''|''
       @ (case grand_total of None \<Rightarrow> ''nan'' | Some g \<Rightarrow> format_2f g)"

definition group_row :: "(string \<times> receipt_group) list \<Rightarrow> df_row \<Rightarrow> (string \<times> receipt_group) list" where
  "group_row receipt_groups row =
     (let src = df_src row;
          date_str = py_str (Date src);
          merchant = (case df_Merchant row of None \<Rightarrow> ''nan'' | Some m \<Rightarrow> m);
          grand_total = df_Grand_Total row
      in if grand_total = Some 0 then receipt_groups
         else (let key = group_key date_str merchant grand_total;
                   new_group = \<lparr>g_Date = date_str, g_Merchant = merchant,
                                g_Address = py_str (Address src), g_Grand_Total = grand_total,
                                g_Tax = py_str (Tax src), g_Payment = py_str (Payment src),
                                g_items = [], g_merchant_score = df_merchant_score row\<rparr>;
                   item_name = py_strip (py_str (Item src));
                   item = \<lparr>gi_Item = item_name, gi_Category = py_str (Category src),
                           gi_Qty = Qty src, gi_Unit_Price = Unit_Price src,
                           gi_Total_Price = df_Total_Price row\<rparr>
               in dict_update key new_group
                    (\<lambda>g. if item_name \<noteq> [] \<and> py_upper item_name \<noteq> ''TOTAL''
                         then g\<lparr>g_items := g_items g @ [item]\<rparr> else g)
                    receipt_groups))"

definition expected_items_list :: "Receipt \<Rightarrow> cmp_item list" where
  "expected_items_list receipt =
     map (\<lambda>item. \<lparr>ci_name = normalize_item_name (li_item_name item),
                  ci_price = Some (py_round_nd (li_price item) 2),
                  ci_original_name = li_item_name item\<rparr>)
         (r_line_items receipt)"

definition matched_items_list :: "receipt_group \<Rightarrow> cmp_item list" where
  "matched_items_list existing_receipt =
     map (\<lambda>item. \<lparr>ci_name = normalize_item_name (gi_Item item),
                  ci_price = map_option (\<lambda>p. py_round_nd p 2) (gi_Total_Price item),
                  ci_original_name = gi_Item item\<rparr>)
         (g_items existing_receipt)"

text \<open>
  The two nested loops: an expected item counts once if some item of the group has a
  name with \<open>fuzz.ratio\<close> at least 85.
\<close>

definition matched_count :: "cmp_item list \<Rightarrow> cmp_item list \<Rightarrow> nat" where
  "matched_count expected matched =
     length (filter (\<lambda>exp_item.
                       list_ex (\<lambda>match_item. 85 \<le> ratio (ci_name exp_item) (ci_name match_item))
                               matched)
                    expected)"

definition group_match_percentage :: "cmp_item list \<Rightarrow> receipt_group \<Rightarrow> real" where
  "group_match_percentage expected existing_receipt =
     (let matched = matched_items_list existing_receipt;
          total_items = max (length expected) (length matched)
      in if 0 < total_items
         then real (matched_count expected matched) / real total_items * 100 else 0)"

text \<open>\<open>amount_diff > 0.01\<close>; with a NaN grand total the difference is NaN and the test is false.\<close>

definition amount_differs :: "real \<Rightarrow> real option \<Rightarrow> bool" where
  "amount_differs total_amount existing_total =
     (case existing_total of None \<Rightarrow> False | Some t \<Rightarrow> 1 / 100 < \<bar>total_amount - t\<bar>)"

text \<open>The distinct non-empty categories of the items, joined.\<close>

definition joined_categories :: "group_item list \<Rightarrow> string" where
  "joined_categories its =
     py_join '', '' (rev (remdups (rev (filter (\<lambda>c. c \<noteq> []) (map gi_Category its)))))"

text \<open>The body of the loop over the groups: the summary, if the group is a duplicate.\<close>

definition check_group :: "cmp_item list \<Rightarrow> real \<Rightarrow> receipt_group \<Rightarrow> duplicate_summary option" where
  "check_group expected total_amount existing_receipt =
     (if amount_differs total_amount (g_Grand_Total existing_receipt) then None
      else (let pct = group_match_percentage expected existing_receipt;
                is_duplicate = (70 \<le> pct)
            in if is_duplicate
               then Some \<lparr>dup_Date = g_Date existing_receipt,
                          dup_Merchant = g_Merchant existing_receipt,
                          dup_Address = g_Address existing_receipt,
                          dup_Grand_Total = g_Grand_Total existing_receipt,
                          dup_Tax = g_Tax existing_receipt,
                          dup_Payment = g_Payment existing_receipt,
                          dup_Item = show_nat (length (g_items existing_receipt)) @ '' items'',
                          dup_Category = joined_categories (g_items existing_receipt),
                          match_type = ''fuzzy_match'',
                          match_percentage = py_round_nd pct 1,
                          merchant_score = g_merchant_score existing_receipt,
                          items_detail = g_items existing_receipt\<rparr>
               else None))"

text \<open>
  \<open>SheetsService.find_duplicate_receipts\<close>. The \<open>.str\<close> accessor raises
  \<open>AttributeError\<close> on a Merchant column without any text cell, which the outer
  \<open>except\<close> turns into the empty list.
\<close>

definition find_duplicate_receipts ::
  "Receipt \<Rightarrow> ledger_row list \<Rightarrow> int \<Rightarrow> int \<Rightarrow> duplicate_summary list" where
  "find_duplicate_receipts receipt all_receipts threshold_days fuzzy_threshold =
     (if all_receipts = [] then []
      else (case strptime_dmY (r_purchase_date receipt) of
              None \<Rightarrow> []
            | Some receipt_date \<Rightarrow>
                (let merchant_name = py_strip (py_lower (md_name (r_merchant_details receipt)));
                     total_amount = ta_total (r_total_amounts receipt)
                 in if \<not> list_ex (\<lambda>r. is_str (Merchant r)) all_receipts then []
                    else (let df = map (make_df_row merchant_name) all_receipts;
                              df_match = filter (row_matches receipt_date threshold_days
                                                   fuzzy_threshold) df
                          in if df_match = [] then []
                             else (let receipt_groups = foldl group_row [] df_match;
                                       expected = expected_items_list receipt
                                   in List.map_filter
                                        (\<lambda>(key, existing_receipt).
                                           check_group expected total_amount existing_receipt)
                                        receipt_groups)))))"

section \<open>Notions used in the statements and proofs\<close>

text \<open>A string without leading or trailing whitespace.\<close>

definition stripped :: "string \<Rightarrow> bool" where
  "stripped s = (s = [] \<or> (\<not> py_isspace (hd s) \<and> \<not> py_isspace (last s)))"

text \<open>The plural step of \<open>normalize_category\<close> alone, on a lower-cased and trimmed string.\<close>

definition plural_rule :: "string \<Rightarrow> string" where
  "plural_rule n =
     (if py_endswith n ''ies'' then take (length n - 3) n @ ''y''
      else if py_endswith n ''s'' \<and> \<not> py_endswith n ''ss'' then take (length n - 1) n
      else n)"









section \<open>Concrete ledgers\<close>

text \<open>The instant used in the examples: 10 February 2025, 12:30.\<close>

definition example_now :: datetime where
  "example_now = mk_datetime 2025 2 10 12 30 0 0"

text \<open>
  The ledger of receipt A: dated 01-01-2025 at "Walmart", items Milk 3.50 and Bread
  2.00, grand total as given.
\<close>

definition walmart_row :: "string \<Rightarrow> real \<Rightarrow> cell \<Rightarrow> ledger_row" where
  "walmart_row item p grand_total =
     \<lparr>Date = CStr ''01-01-2025'', Merchant = CStr ''Walmart'', Address = CStr '''',
      Item = CStr item, Category = CStr ''Groceries'', Qty = CInt 1, Unit_Price = CFloat p,
      Total_Price = CFloat p, Tax = CStr '''', Grand_Total = grand_total,
      Payment = CStr ''card''\<rparr>"

definition walmart_ledger :: "cell \<Rightarrow> ledger_row list" where
  "walmart_ledger grand_total =
     [walmart_row ''Milk'' 3.5 grand_total, walmart_row ''Bread'' 2 grand_total]"

text \<open>The candidate: the same date, items milk 3.50 and bread 2.00, and the given total.\<close>

definition walmart_candidate :: "string \<Rightarrow> real \<Rightarrow> Receipt" where
  "walmart_candidate merchant t =
     \<lparr>r_merchant_details = \<lparr>md_name = merchant, md_address = ''''\<rparr>,
      r_purchase_date = ''01-01-2025'',
      r_line_items =
        [\<lparr>li_item_name = ''milk'', li_unit_price = 3.5, li_quantity = 1, li_price = 3.5,
          li_category = ''Groceries''\<rparr>,
         \<lparr>li_item_name = ''bread'', li_unit_price = 2, li_quantity = 1, li_price = 2,
          li_category = ''Groceries''\<rparr>],
      r_total_amounts = \<lparr>ta_total = t, ta_tax = None, ta_payment_method = ''card''\<rparr>\<rparr>"

text \<open>A budget row with the given cell in its Limit column.\<close>

definition grocery_budget :: "cell \<Rightarrow> budget_row" where
  "grocery_budget limit =
     \<lparr>b_ID = CStr ''b1'', b_Category = CStr ''Grocery'', b_Limit = limit,
      b_Period = CStr ''monthly'', b_Period_Type = CStr ''calendar_month'',
      b_Start_Date = CStr '''', b_End_Date = CStr ''''\<rparr>"








section \<open>Properties of strings\<close>

lemma py_endswith_iff: "py_endswith s suf \<longleftrightarrow> (\<exists>t. s = t @ suf)"
proof
  assume "py_endswith s suf"
  then have "s = take (length s - length suf) s @ suf"
    by (metis append_take_drop_id py_endswith_def)
  then show "\<exists>t. s = t @ suf" ..
next
  assume "\<exists>t. s = t @ suf"
  then show "py_endswith s suf" by (auto simp: py_endswith_def)
qed

lemma py_lower_char_idem: "py_lower_char (py_lower_char c) = py_lower_char c"
proof -
  have "(of_char c :: nat) < 256" by simp
  then show ?thesis
    unfolding py_lower_char_def Let_def by (auto simp: of_char_of)
qed

lemma py_lower_idem: "py_lower (py_lower s) = py_lower s"
  by (simp add: py_lower_def py_lower_char_idem)

lemma py_isspace_lower_char: "py_isspace (py_lower_char c) = py_isspace c"
proof -
  have "(of_char c :: nat) < 256" by simp
  then show ?thesis
    unfolding py_lower_char_def py_isspace_def Let_def by (auto simp: of_char_of)
qed

lemma py_rstrip_id: "s = [] \<or> \<not> py_isspace (last s) \<Longrightarrow> py_rstrip s = s"
  by (cases s rule: rev_cases) (auto simp: py_rstrip_def)

lemma py_lstrip_id: "s = [] \<or> \<not> py_isspace (hd s) \<Longrightarrow> py_lstrip s = s"
  by (cases s) (auto simp: py_lstrip_def)

lemma stripped_strip_id: "stripped s \<Longrightarrow> py_strip s = s"
  by (auto simp: stripped_def py_strip_def py_rstrip_id py_lstrip_id)

lemma py_lstrip_hd: "py_lstrip s = [] \<or> \<not> py_isspace (hd (py_lstrip s))"
  unfolding py_lstrip_def by (metis hd_dropWhile)

lemma py_rstrip_last: "py_rstrip s = [] \<or> \<not> py_isspace (last (py_rstrip s))"
  unfolding py_rstrip_def
  by (metis hd_dropWhile last_rev rev_is_Nil_conv rev_rev_ident)

lemma py_rstrip_prefix: "\<exists>k. py_rstrip s = take k s"
proof -
  obtain k where "dropWhile py_isspace (rev s) = drop k (rev s)"
    by (metis dropWhile_eq_drop)
  then have "py_rstrip s = take (length s - k) s"
    by (simp add: py_rstrip_def rev_drop)
  then show ?thesis ..
qed

lemma py_rstrip_hd: "py_rstrip s \<noteq> [] \<Longrightarrow> hd (py_rstrip s) = hd s"
  using py_rstrip_prefix [of s] by (auto simp: hd_take)

lemma stripped_py_strip: "stripped (py_strip s)"
  unfolding stripped_def py_strip_def
  using py_rstrip_last [of "py_lstrip s"] py_rstrip_hd [of "py_lstrip s"] py_lstrip_hd [of s]
  by (metis py_rstrip_def rev.simps(1) dropWhile.simps(1))

lemma py_lower_strip: "py_lower (py_strip s) = py_strip (py_lower s)"
  by (simp add: py_lower_def py_strip_def py_lstrip_def py_rstrip_def
      dropWhile_map rev_map comp_def py_isspace_lower_char)

lemma length_py_rstrip_less: "s \<noteq> [] \<Longrightarrow> py_isspace (last s) \<Longrightarrow> length (py_rstrip s) < length s"
  by (cases s rule: rev_cases) (auto simp: py_rstrip_def intro: le_less_trans [OF length_dropWhile_le])

lemma length_py_lstrip_le: "length (py_lstrip s) \<le> length s"
  by (simp add: py_lstrip_def length_dropWhile_le)

lemma length_py_rstrip_le: "length (py_rstrip s) \<le> length s"
  by (simp add: py_rstrip_def) (metis length_dropWhile_le length_rev)


lemma normalize_category_plural: "normalize_category c = plural_rule (py_strip (py_lower c))"
  by (simp add: normalize_category_def plural_rule_def Let_def)

lemma plural_rule_cases:
  obtains (ies) t where "n = t @ ''ies''" "plural_rule n = t @ ''y''"
  | (s) t where "n = t @ ''s''" "\<not> py_endswith n ''ies''" "\<not> py_endswith n ''ss''" "plural_rule n = t"
  | (none) "\<not> py_endswith n ''ies''" "\<not> py_endswith n ''s'' \<or> py_endswith n ''ss''" "plural_rule n = n"
proof (cases "py_endswith n ''ies''")
  case True
  then obtain t where "n = t @ ''ies''" by (auto simp: py_endswith_iff)
  then show ?thesis using ies [of t] True by (simp add: plural_rule_def)
next
  case False
  show ?thesis
  proof (cases "py_endswith n ''s'' \<and> \<not> py_endswith n ''ss''")
    case True
    then obtain t where "n = t @ ''s''" by (auto simp: py_endswith_iff)
    then show ?thesis using s [of t] True False by (simp add: plural_rule_def)
  next
    case F2: False
    then show ?thesis using none False by (auto simp: plural_rule_def)
  qed
qed

lemma plural_rule_fix: "\<not> py_endswith n ''ies'' \<Longrightarrow> \<not> py_endswith n ''s'' \<Longrightarrow> plural_rule n = n"
  by (simp add: plural_rule_def)

lemma py_lower_append: "py_lower (a @ b) = py_lower a @ py_lower b"
  by (simp add: py_lower_def)

lemma py_lower_fix_appendD: "py_lower (a @ b) = a @ b \<Longrightarrow> py_lower a = a"
  by (simp add: py_lower_def)

lemma length_plural_rule: "length (plural_rule n) \<le> length n"
  by (cases n rule: plural_rule_cases) auto

lemma length_py_strip_le: "length (py_strip s) \<le> length s"
  unfolding py_strip_def
  by (meson le_trans length_py_lstrip_le length_py_rstrip_le)

lemma py_strip_trailing_less:
  assumes "s \<noteq> []" "py_isspace (last s)" shows "length (py_strip s) < length s"
proof (cases "py_lstrip s = []")
  case True
  then show ?thesis using assms by (simp add: py_strip_def py_rstrip_def)
next
  case False
  obtain k where k: "py_lstrip s = drop k s"
    unfolding py_lstrip_def by (metis dropWhile_eq_drop)
  with False have "last (py_lstrip s) = last s" by (simp add: last_drop)
  then have "length (py_rstrip (py_lstrip s)) < length (py_lstrip s)"
    using False assms length_py_rstrip_less by simp
  then show ?thesis
    unfolding py_strip_def using length_py_lstrip_le [of s] by linarith
qed

text \<open>The core of idempotence: on a lower-cased, trimmed string.\<close>

lemma plural_rule_twice:
  assumes low: "py_lower n = n" and st: "stripped n"
  shows "plural_rule (py_strip (py_lower (plural_rule n))) = plural_rule n
         \<longleftrightarrow> \<not> (\<exists>t w. n = t @ [w, CHR ''s''] \<and> py_isspace w)"
proof (cases n rule: plural_rule_cases)
  case (ies t)
  have nsp: "\<not> py_isspace CHR ''y''" by code_simp
  have lowy: "py_lower_char CHR ''y'' = CHR ''y''" by code_simp
  have lowt: "py_lower (t @ ''y'') = t @ ''y''"
    using low ies(1) lowy by (simp add: py_lower_def)
  have "stripped (t @ ''y'')"
    using st ies(1) nsp by (cases t) (auto simp: stripped_def)
  then have "py_strip (py_lower (plural_rule n)) = t @ ''y''"
    using lowt ies(2) by (simp add: stripped_strip_id)
  moreover have "plural_rule (t @ ''y'') = t @ ''y''"
    by (rule plural_rule_fix) (auto simp: py_endswith_iff)
  moreover have "\<not> (\<exists>t w. n = t @ [w, CHR ''s''] \<and> py_isspace w)"
  proof
    assume "\<exists>t w. n = t @ [w, CHR ''s''] \<and> py_isspace w"
    then obtain u w where "n = u @ [w, CHR ''s'']" "py_isspace w" by blast
    with ies(1) have "w = CHR ''e''" by (auto simp: append_eq_append_conv2 Cons_eq_append_conv)
    moreover have "\<not> py_isspace CHR ''e''" by code_simp
    ultimately show False using \<open>py_isspace w\<close> by simp
  qed
  ultimately show ?thesis using ies(2) by simp
next
  case (s t)
  have lowt: "py_lower t = t" using low s(1) py_lower_fix_appendD by metis
  have no_s: "\<not> py_endswith t ''s''"
    using s(1,3) by (auto simp: py_endswith_iff)
  have no_ies: "\<not> py_endswith t ''ies''"
    using no_s by (auto simp: py_endswith_iff)
  show ?thesis
  proof (cases "t = [] \<or> \<not> py_isspace (last t)")
    case True
    have "stripped t"
      using st s(1) True by (cases t) (auto simp: stripped_def)
    then have "py_strip (py_lower (plural_rule n)) = t"
      using lowt s(4) by (simp add: stripped_strip_id)
    moreover have "plural_rule t = t" using no_s no_ies by (rule plural_rule_fix [rotated])
    moreover have "\<not> (\<exists>u w. n = u @ [w, CHR ''s''] \<and> py_isspace w)"
    proof
      assume "\<exists>u w. n = u @ [w, CHR ''s''] \<and> py_isspace w"
      then obtain u w where "n = u @ [w, CHR ''s'']" "py_isspace w" by blast
      with s(1) have "t = u @ [w]" by simp
      with True \<open>py_isspace w\<close> show False by simp
    qed
    ultimately show ?thesis using s(4) by simp
  next
    case False
    then obtain u w where t: "t = u @ [w]" and w: "py_isspace w"
      by (cases t rule: rev_cases) auto
    have "length (py_strip (py_lower (plural_rule n))) < length t"
      using lowt s(4) False py_strip_trailing_less [of t] by simp
    then have "length (plural_rule (py_strip (py_lower (plural_rule n)))) < length t"
      using length_plural_rule le_less_trans by blast
    then have "plural_rule (py_strip (py_lower (plural_rule n))) \<noteq> plural_rule n"
      using s(4) by auto
    moreover have "\<exists>t w. n = t @ [w, CHR ''s''] \<and> py_isspace w"
      using s(1) t w by auto
    ultimately show ?thesis by simp
  qed
next
  case none
  have "py_strip (py_lower (plural_rule n)) = n"
    using none(3) low st by (simp add: stripped_strip_id)
  moreover have "\<not> (\<exists>t w. n = t @ [w, CHR ''s''] \<and> py_isspace w)"
  proof
    assume "\<exists>t w. n = t @ [w, CHR ''s''] \<and> py_isspace w"
    then obtain u w where n: "n = u @ [w, CHR ''s'']" and w: "py_isspace w" by blast
    have "py_endswith n ''s''" using n by (auto simp: py_endswith_iff)
    with none(2) have "py_endswith n ''ss''" by simp
    with n have "w = CHR ''s''" by (auto simp: py_endswith_iff append_eq_append_conv2 Cons_eq_append_conv)
    moreover have "\<not> py_isspace CHR ''s''" by code_simp
    ultimately show False using w by simp
  qed
  ultimately show ?thesis by simp
qed

section \<open>CategoryNormalizer: the rules and idempotence\<close>

text \<open>
  Claim C4, as the code has it. The normalizer lower-cases and trims its input, replaces
  a trailing "ies" by "y", and otherwise drops a trailing "s" that is not preceded by
  another "s"; a string that ends in neither, or in "ss", is returned lower-cased and
  trimmed. So "Groceries" and "Grocery" both give "grocery" and "Items" gives "item";
  "Bus" ends in a single "s" and gives "bu".
\<close>

theorem normalize_category_rules:
  "(\<forall>t. py_strip (py_lower c) = t @ ''ies'' \<longrightarrow> normalize_category c = t @ ''y'') \<and>
   (\<forall>t. py_strip (py_lower c) = t @ ''s'' \<and> \<not> py_endswith t ''ie'' \<and> \<not> py_endswith t ''s''
        \<longrightarrow> normalize_category c = t) \<and>
   (\<not> py_endswith (py_strip (py_lower c)) ''ies'' \<and>
    (\<not> py_endswith (py_strip (py_lower c)) ''s'' \<or> py_endswith (py_strip (py_lower c)) ''ss'')
        \<longrightarrow> normalize_category c = py_strip (py_lower c)) \<and>
   normalize_category ''Groceries'' = ''grocery'' \<and>
   normalize_category ''Grocery'' = ''grocery'' \<and>
   normalize_category ''Items'' = ''item'' \<and>
   normalize_category ''Bus'' = ''bu''"
proof (intro conjI allI impI)
  fix t assume "py_strip (py_lower c) = t @ ''ies''"
  then show "normalize_category c = t @ ''y''"
    by (simp add: normalize_category_def py_endswith_def)
next
  fix t
  assume h: "py_strip (py_lower c) = t @ ''s'' \<and> \<not> py_endswith t ''ie'' \<and> \<not> py_endswith t ''s''"
  then have "\<not> py_endswith (t @ ''s'') ''ies''" "\<not> py_endswith (t @ ''s'') ''ss''"
    by (auto simp: py_endswith_iff)
  moreover have "py_endswith (t @ ''s'') ''s''" by (simp add: py_endswith_iff)
  ultimately show "normalize_category c = t"
    using h by (simp add: normalize_category_def)
next
  assume "\<not> py_endswith (py_strip (py_lower c)) ''ies'' \<and>
    (\<not> py_endswith (py_strip (py_lower c)) ''s'' \<or> py_endswith (py_strip (py_lower c)) ''ss'')"
  then show "normalize_category c = py_strip (py_lower c)"
    by (auto simp: normalize_category_def)
next
  show "normalize_category ''Groceries'' = ''grocery''" by code_simp
  show "normalize_category ''Grocery'' = ''grocery''" by code_simp
  show "normalize_category ''Items'' = ''item''" by code_simp
  show "normalize_category ''Bus'' = ''bu''" by code_simp
qed

theorem normalize_category_rules_witness:
  "normalize_category ''Parties'' = ''party'' \<and> normalize_category ''Taxis'' = ''taxi'' \<and>
   normalize_category '' Glass '' = ''glass''"
proof -
  have 1: "py_strip (py_lower ''Parties'') = ''part'' @ ''ies''" by code_simp
  have 2: "py_strip (py_lower ''Taxis'') = ''taxi'' @ ''s'' \<and> \<not> py_endswith ''taxi'' ''ie''
           \<and> \<not> py_endswith ''taxi'' ''s''" by code_simp
  have 3: "\<not> py_endswith (py_strip (py_lower '' Glass '')) ''ies'' \<and>
           (\<not> py_endswith (py_strip (py_lower '' Glass '')) ''s''
            \<or> py_endswith (py_strip (py_lower '' Glass '')) ''ss'')" by code_simp
  have 4: "py_strip (py_lower '' Glass '') = ''glass''" by code_simp
  from normalize_category_rules [of "''Parties''"] 1
  have "normalize_category ''Parties'' = ''part'' @ ''y''" by blast
  moreover from normalize_category_rules [of "''Taxis''"] 2
  have "normalize_category ''Taxis'' = ''taxi''" by blast
  moreover from normalize_category_rules [of "'' Glass ''"] 3 4
  have "normalize_category '' Glass '' = ''glass''" by metis
  ultimately show ?thesis by simp
qed

text \<open>Claim C4 as stated fails on its last example: "Bus" does not normalize to "bus".\<close>

theorem normalize_category_Bus: "normalize_category ''Bus'' \<noteq> ''bus''"
  by code_simp

text \<open>
  Claim C10, as the code has it. Normalizing twice gives the same as normalizing once
  exactly when the lower-cased, trimmed input does not end in a whitespace character
  followed by "s". (Dropping that "s" leaves a trailing space, which the second pass
  trims.)
\<close>

theorem normalize_category_idempotent_iff:
  "normalize_category (normalize_category c) = normalize_category c
   \<longleftrightarrow> \<not> (\<exists>t w. py_strip (py_lower c) = t @ [w, CHR ''s''] \<and> py_isspace w)"
proof -
  let ?n = "py_strip (py_lower c)"
  have "py_lower ?n = ?n" by (simp add: py_lower_strip py_lower_idem)
  moreover have "stripped ?n" by (rule stripped_py_strip)
  ultimately show ?thesis
    using plural_rule_twice [of ?n] by (simp add: normalize_category_plural)
qed

theorem normalize_category_idempotent_witness:
  "normalize_category (normalize_category ''Groceries'') = normalize_category ''Groceries''"
proof -
  have n: "py_strip (py_lower ''Groceries'') = ''groceries''" by code_simp
  have e: "\<not> py_isspace CHR ''e''" by code_simp
  have "\<not> (\<exists>t w. py_strip (py_lower ''Groceries'') = t @ [w, CHR ''s''] \<and> py_isspace w)"
  proof
    assume "\<exists>t w. py_strip (py_lower ''Groceries'') = t @ [w, CHR ''s''] \<and> py_isspace w"
    then obtain t w where "''groceries'' = t @ [w, CHR ''s'']" "py_isspace w"
      using n by auto
    then have "w = CHR ''e''"
      by (metis append_butlast_last_id butlast.simps(2) butlast_append last.simps last_appendR
          last_snoc list.distinct(1) snoc_eq_iff_butlast)
    with e \<open>py_isspace w\<close> show False by simp
  qed
  with normalize_category_idempotent_iff [of "''Groceries''"] show ?thesis by blast
qed

text \<open>Claim C10 as stated fails: "a s" normalizes to "a " and that normalizes to "a".\<close>

theorem normalize_category_not_idempotent:
  "normalize_category (normalize_category ''a s'') \<noteq> normalize_category ''a s''"
  by code_simp

section \<open>DuplicateDetector on the Walmart ledger\<close>

text \<open>
  Claim C1, as the code has it. Against the ledger of receipt A (01-01-2025, "Walmart",
  Milk 3.50 and Bread 2.00, grand total 5.50), the candidate with the same date, items
  and total and the merchant written "WAL-MART" gets no candidate back: the token-set
  score of "walmart" against "wal-mart" is 53, below the threshold 85. With the merchant
  written "WALMART" exactly one candidate comes back, with match percentage 100.
\<close>

theorem walmart_duplicates:
  "token_set_ratio ''walmart'' ''wal-mart'' = 53 \<and>
   find_duplicate_receipts (walmart_candidate ''WAL-MART'' 5.5) (walmart_ledger (CFloat 5.5)) 1 85
     = [] \<and>
   map match_percentage
     (find_duplicate_receipts (walmart_candidate ''WALMART'' 5.5) (walmart_ledger (CFloat 5.5)) 1 85)
     = [100]"
  by code_simp

text \<open>Claim C1 as stated fails: the list returned for "WAL-MART" has no candidate.\<close>

theorem walmart_hyphen_no_candidate:
  "length (find_duplicate_receipts (walmart_candidate ''WAL-MART'' 5.5)
             (walmart_ledger (CFloat 5.5)) 1 85) \<noteq> 1"
  by code_simp

text \<open>
  Claim C6 at a ledger whose Grand Total cells are blank. \<open>to_numeric\<close> turns the blank
  into NaN, which \<open>or 0\<close> does not replace and with which the test \<open>amount_diff > 0.01\<close> is
  false: the group is reported as a duplicate of a candidate with total 5.50 although
  its grand total is not within 0.01 of it.
\<close>

theorem blank_grand_total_reported:
  "map (\<lambda>d. (dup_Grand_Total d, match_percentage d))
     (find_duplicate_receipts (walmart_candidate ''WALMART'' 5.5) (walmart_ledger (CStr '''')) 1 85)
     = [(None, 100)]"
  by code_simp

text \<open>
  For a group whose grand total is a number the loop body decides as intended: the
  group is reported exactly when the totals are within 0.01 and at least 70 percent of
  the items match.
\<close>

lemma check_group_numeric_total:
  "g_Grand_Total g = Some t \<Longrightarrow>
     check_group expected total_amount g \<noteq> None
       \<longleftrightarrow> \<bar>total_amount - t\<bar> \<le> 1 / 100 \<and> 70 \<le> group_match_percentage expected g"
  by (auto simp: check_group_def amount_differs_def Let_def)

section \<open>Budget status on a budget without a numeric limit\<close>

text \<open>
  Claim C2 at a budget store whose one row has a blank Limit cell:
  \<open>get_budget_status\<close> raises \<open>ValueError\<close> to its caller.
\<close>

theorem get_budget_status_raises:
  "get_budget_status example_now [grocery_budget (CStr '''')] [] = Inl ValueError"
  by code_simp

section \<open>Properties of dictionaries and sorting\<close>

















section \<open>get_trends: the loop invariant and the series\<close>



















section \<open>get_forecast: confidence and months\<close>










section \<open>get_category_analysis: the percentages\<close>






section \<open>get_budget_status: the percentage used\<close>





section \<open>Rows with an unparseable date\<close>

















end
